theory Spec2Isabelle
  imports Main "HOL-Library.Word" "HOL-Library.AList"
begin

section \<open>The memory tools of \<^verbatim>\<open>src/memory_agent/tools.py\<close>\<close>

text \<open>
  The module defines two handlers, \<^verbatim>\<open>upsert_memory\<close> and \<^verbatim>\<open>search_memories\<close>.
  Both delegate to an injected store object; everything they do themselves is default
  filling, key construction, time stamping and text formatting. The embedding below
  keeps that shape: Python values are a datatype, the text renderings Python performs
  implicitly (\<^verbatim>\<open>str\<close>, \<^verbatim>\<open>repr\<close>, f-strings, \<^verbatim>\<open>isoformat\<close>) are functions,
  and the effects (the random source behind \<^verbatim>\<open>uuid.uuid4\<close>, the clock behind
  \<^verbatim>\<open>datetime.now\<close>, the store) are threaded through an explicit world.

  A \<^typ>\<open>char\<close> stands for one code point in the range 0 to 255.
\<close>

subsection \<open>Python values and their text\<close>

text \<open>
  The values that can occur in a stored mapping. A dictionary is an association list
  in insertion order, as Python prints it. A float is carried by the text that
  \<^verbatim>\<open>repr\<close> gives for it: the handlers never compute with a score, they only print it.
\<close>

datatype pyval =
    PNone
  | PBool bool
  | PInt int
  | PFloat string
  | PStr string
  | PList "pyval list"
  | PDict "(string \<times> pyval) list"

text \<open>\<^verbatim>\<open>d.get(k)\<close> on a dictionary value: \<open>None\<close> when the key is absent.\<close>

fun dict_get :: "pyval \<Rightarrow> string \<Rightarrow> pyval option" where
  "dict_get (PDict kvs) k = map_of kvs k"
| "dict_get _ k = None"

text \<open>\<^verbatim>\<open>list(d)\<close>: the keys of a dictionary value, in order.\<close>

fun dict_keys :: "pyval \<Rightarrow> string list" where
  "dict_keys (PDict kvs) = map fst kvs"
| "dict_keys _ = []"

text \<open>Decimal and hexadecimal digits (lower case, as \<^verbatim>\<open>%d\<close> and \<^verbatim>\<open>%x\<close> print them).\<close>

definition dec_digit :: "nat \<Rightarrow> char" where
  "dec_digit d = char_of (48 + d)"

definition hex_digit :: "nat \<Rightarrow> char" where
  "hex_digit d = (if d < 10 then char_of (48 + d) else char_of (87 + d))"

fun dec_nat :: "nat \<Rightarrow> string" where
  "dec_nat n = (if n < 10 then [dec_digit n] else dec_nat (n div 10) @ [dec_digit (n mod 10)])"

declare dec_nat.simps [simp del]

text \<open>\<^verbatim>\<open>str(i)\<close> for an integer.\<close>

definition str_int :: "int \<Rightarrow> string" where
  "str_int i = (if i < 0 then CHR ''-'' # dec_nat (nat (- i)) else dec_nat (nat i))"

text \<open>\<^verbatim>\<open>"%0kd" % n\<close>: decimal, padded with zeros on the left to at least \<open>k\<close> characters.\<close>

definition zero_pad :: "nat \<Rightarrow> nat \<Rightarrow> string" where
  "zero_pad k n = (let s = dec_nat n in replicate (k - length s) CHR ''0'' @ s)"

text \<open>The lowest \<open>k\<close> hexadecimal digits of \<open>n\<close>, most significant first.\<close>

fun hex_pad :: "nat \<Rightarrow> nat \<Rightarrow> string" where
  "hex_pad 0 n = []"
| "hex_pad (Suc k) n = hex_pad k (n div 16) @ [hex_digit (n mod 16)]"

text \<open>\<^verbatim>\<open>sep.join(xs)\<close>.\<close>

fun join :: "string \<Rightarrow> string list \<Rightarrow> string" where
  "join sep [] = []"
| "join sep [x] = x"
| "join sep (x # y # ys) = x @ sep @ join sep (y # ys)"

text \<open>
  \<^verbatim>\<open>repr\<close> of a string. Python quotes with \<^verbatim>\<open>'\<close>, unless the string holds a
  \<^verbatim>\<open>'\<close> and no \<^verbatim>\<open>"\<close>; it escapes the backslash, the chosen quote, tab, newline and
  carriage return, and writes every other non-printable code point below 256 as
  \<^verbatim>\<open>\xhh\<close>.
\<close>

definition py_printable :: "char \<Rightarrow> bool" where
  "py_printable c = (let n = (of_char c :: nat) in (32 \<le> n \<and> n < 127) \<or> (161 \<le> n \<and> n \<noteq> 173))"

definition escape_char :: "char \<Rightarrow> char \<Rightarrow> string" where
  "escape_char quote c =
     (if c = quote \<or> c = CHR 0x5C then [CHR 0x5C, c]
      else if c = CHR 0x09 then [CHR 0x5C, CHR ''t'']
      else if c = CHR 0x0A then [CHR 0x5C, CHR ''n'']
      else if c = CHR 0x0D then [CHR 0x5C, CHR ''r'']
      else if py_printable c then [c]
      else [CHR 0x5C, CHR ''x'', hex_digit ((of_char c :: nat) div 16), hex_digit ((of_char c :: nat) mod 16)])"

definition repr_str :: "string \<Rightarrow> string" where
  "repr_str s =
     (let quote = (if CHR 0x27 \<in> set s \<and> CHR 0x22 \<notin> set s then CHR 0x22 else CHR 0x27)
      in quote # concat (map (escape_char quote) s) @ [quote])"

text \<open>\<^verbatim>\<open>repr(v)\<close>.\<close>

fun py_repr :: "pyval \<Rightarrow> string" where
  "py_repr PNone = ''None''"
| "py_repr (PBool b) = (if b then ''True'' else ''False'')"
| "py_repr (PInt i) = str_int i"
| "py_repr (PFloat r) = r"
| "py_repr (PStr s) = repr_str s"
| "py_repr (PList xs) = ''['' @ join '', '' (map py_repr xs) @ '']''"
| "py_repr (PDict kvs) =
     ''{'' @ join '', '' (map (\<lambda>kv. repr_str (fst kv) @ '': '' @ py_repr (snd kv)) kvs) @ ''}''"

text \<open>
  \<^verbatim>\<open>str(v)\<close>, which is what a replacement field \<^verbatim>\<open>{v}\<close> of an f-string inserts: a
  string as it is, every other value as its \<^verbatim>\<open>repr\<close>.
\<close>

fun py_str :: "pyval \<Rightarrow> string" where
  "py_str (PStr s) = s"
| "py_str v = py_repr v"

subsection \<open>Identifiers and time stamps\<close>

text \<open>
  A \<^verbatim>\<open>uuid.UUID\<close> is a 128-bit integer. \<^verbatim>\<open>str\<close> prints its 32 hexadecimal
  digits in groups of 8, 4, 4, 4 and 12, separated by hyphens.
\<close>

type_synonym uuid = "128 word"

definition str_uuid :: "uuid \<Rightarrow> string" where
  "str_uuid u =
     (let hex = hex_pad 32 (unat u)
      in take 8 hex @ ''-'' @ take 4 (drop 8 hex) @ ''-'' @ take 4 (drop 12 hex) @ ''-'' @
         take 4 (drop 16 hex) @ ''-'' @ drop 20 hex)"

text \<open>
  A naive \<^verbatim>\<open>datetime\<close>, as \<^verbatim>\<open>datetime.now()\<close> returns it. Python keeps the fields
  within the ranges of \<open>valid_datetime\<close>.
\<close>

record datetime =
  year :: nat
  month :: nat
  day :: nat
  hour :: nat
  minute :: nat
  second :: nat
  microsecond :: nat

definition valid_datetime :: "datetime \<Rightarrow> bool" where
  "valid_datetime d =
     (1 \<le> year d \<and> year d \<le> 9999 \<and> 1 \<le> month d \<and> month d \<le> 12 \<and>
      1 \<le> day d \<and> day d \<le> 31 \<and> hour d < 24 \<and> minute d < 60 \<and> second d < 60 \<and>
      microsecond d < 1000000)"

text \<open>
  \<^verbatim>\<open>d.isoformat()\<close> with the default separator and time specification:
  \<^verbatim>\<open>YYYY-MM-DDTHH:MM:SS\<close>, followed by \<^verbatim>\<open>.ffffff\<close> when the microsecond is not zero.
  A naive datetime has no offset part.
\<close>

definition isoformat :: "datetime \<Rightarrow> string" where
  "isoformat d =
     zero_pad 4 (year d) @ ''-'' @ zero_pad 2 (month d) @ ''-'' @ zero_pad 2 (day d) @ ''T'' @
     zero_pad 2 (hour d) @ '':'' @ zero_pad 2 (minute d) @ '':'' @ zero_pad 2 (second d) @
     (if microsecond d \<noteq> 0 then ''.'' @ zero_pad 6 (microsecond d) else [])"

text \<open>
  Python compares two naive datetimes field by field, from the year down to the
  microsecond, and two strings code point by code point, a proper prefix being smaller.
\<close>

fun nats_lt :: "nat list \<Rightarrow> nat list \<Rightarrow> bool" where
  "nats_lt [] [] = False"
| "nats_lt [] (y # ys) = True"
| "nats_lt (x # xs) [] = False"
| "nats_lt (x # xs) (y # ys) = (x < y \<or> (x = y \<and> nats_lt xs ys))"

definition datetime_fields :: "datetime \<Rightarrow> nat list" where
  "datetime_fields d = [year d, month d, day d, hour d, minute d, second d, microsecond d]"

definition datetime_lt :: "datetime \<Rightarrow> datetime \<Rightarrow> bool" where
  "datetime_lt a b = nats_lt (datetime_fields a) (datetime_fields b)"

definition str_lt :: "string \<Rightarrow> string \<Rightarrow> bool" where
  "str_lt a b = nats_lt (map of_char a) (map of_char b)"

definition str_le :: "string \<Rightarrow> string \<Rightarrow> bool" where
  "str_le a b = (a = b \<or> str_lt a b)"

subsection \<open>The store and the world\<close>

text \<open>
  The store is a parameter of both handlers (\<^verbatim>\<open>store: BaseStore\<close>), used through two
  methods only. A namespace is the pair the handlers build, \<^verbatim>\<open>("memories", user_id)\<close>.
  A method either raises or returns; either way it leaves the store in some state.
\<close>

datatype py_exception = PyException (exc_class: string) (exc_message: string)

type_synonym namespace = "string \<times> string"

text \<open>
  One result of a search. The handler reads \<^verbatim>\<open>r.key\<close> directly and the other two
  attributes through \<^verbatim>\<open>getattr\<close> with a default, so each of these may be missing
  (\<open>None\<close> here); an attribute that is present may itself hold Python's \<^verbatim>\<open>None\<close>.
\<close>

record search_item =
  item_key :: string
  item_value :: "pyval option"
  item_score :: "pyval option"

record 's store =
  aput :: "namespace \<Rightarrow> string \<Rightarrow> pyval \<Rightarrow> 's \<Rightarrow> py_exception option \<times> 's"
  asearch :: "namespace \<Rightarrow> string \<Rightarrow> int \<Rightarrow> 's \<Rightarrow> (py_exception + search_item list) \<times> 's"

datatype store_call =
    APut namespace string pyval
  | ASearch namespace string int

fun call_namespace :: "store_call \<Rightarrow> namespace" where
  "call_namespace (APut ns k v) = ns"
| "call_namespace (ASearch ns q l) = ns"

text \<open>
  The world a handler runs in: the values successive calls of \<^verbatim>\<open>uuid.uuid4()\<close> and
  \<^verbatim>\<open>datetime.now()\<close> return, how many of each have been consumed, the state of the
  store, and a log of the calls made to the store, oldest first. The log is a ghost
  field: it records what the handlers request, whatever the store does with it.
\<close>

record 's world =
  uuid4_values :: "nat \<Rightarrow> uuid"
  uuid4_calls :: nat
  now_values :: "nat \<Rightarrow> datetime"
  now_calls :: nat
  store_state :: 's
  store_log :: "store_call list"

definition uuid4 :: "'s world \<Rightarrow> uuid \<times> 's world" where
  "uuid4 w = (uuid4_values w (uuid4_calls w), w\<lparr>uuid4_calls := Suc (uuid4_calls w)\<rparr>)"

definition datetime_now :: "'s world \<Rightarrow> datetime \<times> 's world" where
  "datetime_now w = (now_values w (now_calls w), w\<lparr>now_calls := Suc (now_calls w)\<rparr>)"

definition store_aput ::
  "'s store \<Rightarrow> namespace \<Rightarrow> string \<Rightarrow> pyval \<Rightarrow> 's world \<Rightarrow> py_exception option \<times> 's world" where
  "store_aput st ns k v w =
     (let (r, s') = aput st ns k v (store_state w)
      in (r, w\<lparr>store_state := s', store_log := store_log w @ [APut ns k v]\<rparr>))"

definition store_asearch ::
  "'s store \<Rightarrow> namespace \<Rightarrow> string \<Rightarrow> int \<Rightarrow> 's world \<Rightarrow>
     (py_exception + search_item list) \<times> 's world" where
  "store_asearch st ns q l w =
     (let (r, s') = asearch st ns q l (store_state w)
      in (r, w\<lparr>store_state := s', store_log := store_log w @ [ASearch ns q l]\<rparr>))"

text \<open>The calls made to the store between an earlier world and a later one.\<close>

definition calls_between :: "'s world \<Rightarrow> 's world \<Rightarrow> store_call list" where
  "calls_between w w' = drop (length (store_log w)) (store_log w')"

subsection \<open>\<^verbatim>\<open>upsert_memory\<close>\<close>

text \<open>
  \<^verbatim>\<open>tags or []\<close>: Python's \<^verbatim>\<open>or\<close> returns its left operand when that is truthy, and
  the right one otherwise. \<^verbatim>\<open>None\<close> and the empty list are falsy.
\<close>

definition tags_or_empty :: "string list option \<Rightarrow> string list" where
  "tags_or_empty tags = (case tags of None \<Rightarrow> [] | Some ts \<Rightarrow> if ts = [] then [] else ts)"

text \<open>The dictionary literal passed as \<^verbatim>\<open>value\<close> (lines 41 to 47).\<close>

definition memory_value ::
  "string \<Rightarrow> string \<Rightarrow> int option \<Rightarrow> string list option \<Rightarrow> string \<Rightarrow> pyval" where
  "memory_value content context importance tags timestamp =
     PDict
       [(''content'', PStr content),
        (''context'', PStr context),
        (''importance'', (case importance of None \<Rightarrow> PNone | Some i \<Rightarrow> PInt i)),
        (''tags'', PList (map PStr (tags_or_empty tags))),
        (''timestamp'', PStr timestamp)]"

text \<open>
  \<^verbatim>\<open>memory_id or uuid.uuid4()\<close>: every \<^verbatim>\<open>UUID\<close> object is truthy, so a supplied
  identifier is used as it is and \<^verbatim>\<open>uuid4\<close> is called only when none is supplied.
  The result is the returned text, or the exception that left the handler.
\<close>

definition upsert_memory ::
  "'s store \<Rightarrow> string \<Rightarrow> string \<Rightarrow> int option \<Rightarrow> string list option \<Rightarrow> uuid option \<Rightarrow>
     string \<Rightarrow> 's world \<Rightarrow> (py_exception + string) \<times> 's world" where
  "upsert_memory st content context importance tags memory_id user_id w =
     (let (mem_id, w1) = (case memory_id of Some m \<Rightarrow> (m, w) | None \<Rightarrow> uuid4 w);
          (now, w2) = datetime_now w1;
          timestamp = isoformat now;
          (raised, w3) =
            store_aput st (''memories'', user_id) (str_uuid mem_id)
              (memory_value content context importance tags timestamp) w2
      in case raised of
           Some e \<Rightarrow> (Inl e, w3)
         | None \<Rightarrow> (Inr (''Stored memory '' @ str_uuid mem_id), w3))"

subsection \<open>\<^verbatim>\<open>search_memories\<close>\<close>

text \<open>\<^verbatim>\<open>query or ""\<close>: \<^verbatim>\<open>None\<close> and the empty string are falsy.\<close>

definition query_or_empty :: "string option \<Rightarrow> string" where
  "query_or_empty query = (case query of None \<Rightarrow> [] | Some s \<Rightarrow> if s = [] then [] else s)"

text \<open>The f-string of line 71, for one result.\<close>

definition format_result :: "search_item \<Rightarrow> string" where
  "format_result r =
     item_key r @ '': '' @
     py_str (case item_value r of None \<Rightarrow> PDict [] | Some v \<Rightarrow> v) @
     '' (score='' @
     py_str (case item_score r of None \<Rightarrow> PNone | Some s \<Rightarrow> s) @ '')''"

definition search_memories ::
  "'s store \<Rightarrow> string option \<Rightarrow> int \<Rightarrow> string \<Rightarrow> 's world \<Rightarrow> (py_exception + string) \<times> 's world" where
  "search_memories st query limit user_id w =
     (let q = query_or_empty query;
          (r, w1) = store_asearch st (''memories'', user_id) q limit w
      in case r of
           Inl e \<Rightarrow> (Inl e, w1)
         | Inr results \<Rightarrow>
             (let formatted = map format_result results
              in (Inr (if formatted \<noteq> [] then join [CHR 0x0A] formatted
                       else ''No memories found''), w1)))"

subsection \<open>A key-value store\<close>

text \<open>
  Modelled from the spec: the store is an external collaborator, and the spec gives its
  contract: \<^verbatim>\<open>put(namespace, key, value)\<close> writes one record, replacing entirely the
  record already at that namespace and key; \<^verbatim>\<open>search(namespace, query, limit)\<close>
  returns records of that namespace, at most \<open>limit\<close> of them. This reference store
  keeps the records in an association list, never raises, ignores the query text
  (every search lists the namespace in storage order) and attaches no score.
\<close>

type_synonym kv_state = "((namespace \<times> string) \<times> pyval) list"

definition kv_put :: "namespace \<Rightarrow> string \<Rightarrow> pyval \<Rightarrow> kv_state \<Rightarrow> py_exception option \<times> kv_state" where
  "kv_put ns k v s = (None, AList.update (ns, k) v s)"

definition kv_item :: "(namespace \<times> string) \<times> pyval \<Rightarrow> search_item" where
  "kv_item e = \<lparr>item_key = snd (fst e), item_value = Some (snd e), item_score = Some PNone\<rparr>"

definition kv_search ::
  "namespace \<Rightarrow> string \<Rightarrow> int \<Rightarrow> kv_state \<Rightarrow> (py_exception + search_item list) \<times> kv_state" where
  "kv_search ns q l s =
     (Inr (map kv_item (take (nat l) (filter (\<lambda>e. fst (fst e) = ns) s))), s)"

definition kv_store :: "kv_state store" where
  "kv_store = \<lparr>aput = kv_put, asearch = kv_search\<rparr>"

text \<open>The records of one user, and the record stored at a key.\<close>

definition records_of :: "string \<Rightarrow> kv_state \<Rightarrow> (string \<times> pyval) list" where
  "records_of user_id s =
     map (\<lambda>e. (snd (fst e), snd e)) (filter (\<lambda>e. fst (fst e) = (''memories'', user_id)) s)"

definition kv_get :: "kv_state \<Rightarrow> namespace \<Rightarrow> string \<Rightarrow> pyval option" where
  "kv_get s ns k = map_of s (ns, k)"

subsection \<open>Concrete inputs\<close>

text \<open>
  A clock that advances by one microsecond per reading, a random source, a store
  state holding one record for each of two users, a store that always raises and a
  store whose search returns a fixed list. The examples below run the handlers on them.
\<close>

definition example_now :: "nat \<Rightarrow> datetime" where
  "example_now n =
     \<lparr>year = 2024, month = 5, day = 17, hour = 9, minute = 3, second = 7, microsecond = n\<rparr>"

definition world_of :: "'s \<Rightarrow> 's world" where
  "world_of s =
     \<lparr>uuid4_values = (\<lambda>n. word_of_nat (n + 255)), uuid4_calls = 0,
      now_values = example_now, now_calls = 0, store_state = s, store_log = []\<rparr>"

definition example_records :: kv_state where
  "example_records =
     [(((''memories'', ''u1''), ''00000000-0000-0000-0000-000000000007''),
         memory_value ''likes tea'' ''said at breakfast'' (Some 3) (Some [''drink''])
           ''2024-01-01T00:00:00''),
      (((''memories'', ''u2''), ''00000000-0000-0000-0000-000000000007''),
         memory_value ''likes coffee'' [] None None ''2024-01-02T00:00:00'')]"

definition failing_store :: "unit store" where
  "failing_store =
     \<lparr>aput = (\<lambda>ns k v s. (Some (PyException ''ConnectionError'' ''store unreachable''), s)),
      asearch = (\<lambda>ns q l s. (Inl (PyException ''ConnectionError'' ''store unreachable''), s))\<rparr>"

definition fixed_store :: "search_item list \<Rightarrow> unit store" where
  "fixed_store rs = \<lparr>aput = (\<lambda>ns k v s. (None, s)), asearch = (\<lambda>ns q l s. (Inr rs, s))\<rparr>"

section \<open>Properties\<close>

subsection \<open>What one call of each handler does\<close>

text \<open>
  Both handlers are straight-line code, so each has a closed form: the result, and the
  world it leaves, in terms of the one store method it calls.
\<close>

lemma upsert_memory_unfold:
  "upsert_memory st content context importance tags memory_id user_id w =
     (let mem_id = (case memory_id of Some m \<Rightarrow> m | None \<Rightarrow> uuid4_values w (uuid4_calls w));
          v = memory_value content context importance tags (isoformat (now_values w (now_calls w)));
          r = aput st (''memories'', user_id) (str_uuid mem_id) v (store_state w)
      in ((case fst r of Some e \<Rightarrow> Inl e | None \<Rightarrow> Inr (''Stored memory '' @ str_uuid mem_id)),
          w\<lparr>uuid4_calls := (case memory_id of Some m \<Rightarrow> uuid4_calls w | None \<Rightarrow> Suc (uuid4_calls w)),
            now_calls := Suc (now_calls w),
            store_state := snd r,
            store_log := store_log w @ [APut (''memories'', user_id) (str_uuid mem_id) v]\<rparr>))"
  by (cases memory_id)
     (simp_all add: upsert_memory_def uuid4_def datetime_now_def store_aput_def Let_def
        split: prod.splits option.splits)

lemma search_memories_unfold:
  "search_memories st query limit user_id w =
     (let r = asearch st (''memories'', user_id) (query_or_empty query) limit (store_state w)
      in ((case fst r of
             Inl e \<Rightarrow> Inl e
           | Inr results \<Rightarrow>
               Inr (if results \<noteq> [] then join [CHR 0x0A] (map format_result results)
                    else ''No memories found'')),
          w\<lparr>store_state := snd r,
            store_log := store_log w @ [ASearch (''memories'', user_id) (query_or_empty query) limit]\<rparr>))"
  by (simp add: search_memories_def store_asearch_def Let_def split: prod.splits sum.splits)

lemma str_uuid_7: "str_uuid 7 = ''00000000-0000-0000-0000-000000000007''"
  by code_simp

lemma str_uuid_255: "str_uuid 255 = ''00000000-0000-0000-0000-0000000000ff''"
  by code_simp

lemma isoformat_example_0: "isoformat (example_now 0) = ''2024-05-17T09:03:07''"
  by code_simp

lemma isoformat_example_1: "isoformat (example_now (Suc 0)) = ''2024-05-17T09:03:07.000001''"
  by code_simp

lemma memory_value_keys:
  "dict_keys (memory_value c x imp tags ts) =
     [''content'', ''context'', ''importance'', ''tags'', ''timestamp'']"
  by (simp add: memory_value_def)

lemma memory_value_get:
  "dict_get (memory_value c x imp tags ts) ''content'' = Some (PStr c)"
  "dict_get (memory_value c x imp tags ts) ''context'' = Some (PStr x)"
  "dict_get (memory_value c x imp tags ts) ''importance'' =
     Some (case imp of None \<Rightarrow> PNone | Some i \<Rightarrow> PInt i)"
  "dict_get (memory_value c x imp tags ts) ''tags'' = Some (PList (map PStr (tags_or_empty tags)))"
  "dict_get (memory_value c x imp tags ts) ''timestamp'' = Some (PStr ts)"
  by (simp_all add: memory_value_def)

lemma tags_or_empty_eq: "tags_or_empty tags = (case tags of None \<Rightarrow> [] | Some ts \<Rightarrow> ts)"
  by (simp add: tags_or_empty_def split: option.splits)

lemma upsert_memory_calls:
  "calls_between w (snd (upsert_memory st content context importance tags memory_id user_id w)) =
     [APut (''memories'', user_id)
        (str_uuid (case memory_id of Some m \<Rightarrow> m | None \<Rightarrow> uuid4_values w (uuid4_calls w)))
        (memory_value content context importance tags (isoformat (now_values w (now_calls w))))]"
  by (simp add: upsert_memory_unfold calls_between_def Let_def)

lemma search_memories_calls:
  "calls_between w (snd (search_memories st query limit user_id w)) =
     [ASearch (''memories'', user_id) (query_or_empty query) limit]"
  by (simp add: search_memories_unfold calls_between_def Let_def)

lemma kv_store_sel [simp]: "aput kv_store = kv_put" "asearch kv_store = kv_search"
  by (simp_all add: kv_store_def)

lemma upsert_memory_kv_state:
  "store_state (snd (upsert_memory kv_store content context importance tags memory_id user_id w)) =
     AList.update
       ((''memories'', user_id),
        str_uuid (case memory_id of Some m \<Rightarrow> m | None \<Rightarrow> uuid4_values w (uuid4_calls w)))
       (memory_value content context importance tags (isoformat (now_values w (now_calls w))))
       (store_state w)"
  by (simp add: upsert_memory_unfold Let_def kv_put_def)

lemma upsert_memory_kv_result:
  "fst (upsert_memory kv_store content context importance tags memory_id user_id w) =
     Inr (''Stored memory '' @
          str_uuid (case memory_id of Some m \<Rightarrow> m | None \<Rightarrow> uuid4_values w (uuid4_calls w)))"
  by (simp add: upsert_memory_unfold Let_def kv_put_def)

lemma records_of_length:
  "length (records_of u s) = length (filter (\<lambda>k. fst k = (''memories'', u)) (map fst s))"
  by (simp add: records_of_def filter_map comp_def)

lemma kv_get_present: "kv_get s ns k \<noteq> None \<longleftrightarrow> (ns, k) \<in> set (map fst s)"
  by (simp add: kv_get_def map_of_eq_None_iff)

lemma update_absent: "k \<notin> set (map fst al) \<Longrightarrow> AList.update k v al = al @ [(k, v)]"
  by (induction al) auto

lemma kv_get_absent: "kv_get s ns k = None \<longleftrightarrow> (ns, k) \<notin> set (map fst s)"
  by (simp add: kv_get_def map_of_eq_None_iff)

subsection \<open>Identifier, stored value and tags of an upsert\<close>

text \<open>Different identifiers print differently, so the key determines the identifier.\<close>

lemma of_char_hex_digit:
  "d < 16 \<Longrightarrow> of_char (hex_digit d) = (if d < 10 then 48 + d else 87 + d)"
  by (simp add: hex_digit_def)

lemma hex_digit_inj: "a < 16 \<Longrightarrow> b < 16 \<Longrightarrow> hex_digit a = hex_digit b \<Longrightarrow> a = b"
proof -
  assume a: "a < 16" and b: "b < 16" and eq: "hex_digit a = hex_digit b"
  from eq have "(of_char (hex_digit a) :: nat) = of_char (hex_digit b)"
    by simp
  with a b show "a = b"
    by (simp add: of_char_hex_digit split: if_splits)
qed

lemma hex_pad_length: "length (hex_pad k n) = k"
  by (induction k arbitrary: n) simp_all

lemma hex_pad_inj: "hex_pad k n = hex_pad k m \<Longrightarrow> n mod 16 ^ k = m mod 16 ^ k"
proof (induction k arbitrary: n m)
  case 0
  then show ?case by simp
next
  case (Suc k)
  from Suc.prems have pre: "hex_pad k (n div 16) = hex_pad k (m div 16)"
    and last: "hex_digit (n mod 16) = hex_digit (m mod 16)"
    by simp_all
  from last have low: "n mod 16 = m mod 16"
    by (intro hex_digit_inj) simp_all
  from pre have high: "(n div 16) mod 16 ^ k = (m div 16) mod 16 ^ k"
    by (rule Suc.IH)
  have "n mod 16 ^ Suc k = 16 * ((n div 16) mod 16 ^ k) + n mod 16"
    by (simp add: mod_mult2_eq)
  moreover have "m mod 16 ^ Suc k = 16 * ((m div 16) mod 16 ^ k) + m mod 16"
    by (simp add: mod_mult2_eq)
  ultimately show ?case
    using low high by simp
qed

lemma str_uuid_inj: "str_uuid i = str_uuid j \<longleftrightarrow> i = j"
proof
  assume eq: "str_uuid i = str_uuid j"
  let ?h = "hex_pad 32 (unat i)" and ?g = "hex_pad 32 (unat j)"
  have len: "length ?h = 32" "length ?g = 32"
    by (simp_all add: hex_pad_length)
  from eq have parts: "take 8 ?h = take 8 ?g" "take 4 (drop 8 ?h) = take 4 (drop 8 ?g)"
    "take 4 (drop 12 ?h) = take 4 (drop 12 ?g)" "take 4 (drop 16 ?h) = take 4 (drop 16 ?g)"
    "drop 20 ?h = drop 20 ?g"
    using len by (simp_all add: str_uuid_def Let_def)
  have split: "h = take 8 h @ take 4 (drop 8 h) @ take 4 (drop 12 h) @ take 4 (drop 16 h) @ drop 20 h"
    for h :: string
  proof -
    have s4: "take 4 (drop 16 h) @ drop 20 h = drop 16 h"
      using append_take_drop_id [of 4 "drop 16 h"] by simp
    have s3: "take 4 (drop 12 h) @ drop 16 h = drop 12 h"
      using append_take_drop_id [of 4 "drop 12 h"] by simp
    have s2: "take 4 (drop 8 h) @ drop 12 h = drop 8 h"
      using append_take_drop_id [of 4 "drop 8 h"] by simp
    show ?thesis
      by (simp only: s4 s3 s2 append_take_drop_id)
  qed
  have "?h = ?g"
    using parts split [of ?h] split [of ?g] by metis
  then have "unat i mod 16 ^ 32 = unat j mod 16 ^ 32"
    by (rule hex_pad_inj)
  moreover have "unat i < 16 ^ 32" "unat j < 16 ^ 32"
    using unsigned_less [of i] unsigned_less [of j] by simp_all
  ultimately have "unat i = unat j"
    by simp
  then show "i = j"
    by (rule unsigned_word_eqI)
next
  assume "i = j"
  then show "str_uuid i = str_uuid j"
    by simp
qed


text \<open>
  C1. The effective identifier decides the key of the write and the confirmation. With
  a \<open>memory_id\<close> the handler makes one \<open>aput\<close> call under \<open>("memories", user_id)\<close>
  with key \<open>str(memory_id)\<close> and draws nothing from \<open>uuid4\<close>; without one it draws
  the next \<open>uuid4\<close> value and uses that. In both cases the text returned, when the store
  does not raise, is \<open>Stored memory\<close> followed by that identifier. On the key-value
  store, writing with an identifier whose record exists keeps the keys, and so the
  number of records, replaces the record at that key by the new value and leaves every
  other record as it was; writing with a drawn identifier that is not yet a key adds
  one record and changes none. Two identifiers have the same key only when they are
  equal. That a drawn identifier is new is a property of \<open>uuid4\<close> itself, which is an
  input here.
\<close>

theorem upsert_memory_effective_identifier:
  fixes w :: "'s world" and kw :: "kv_state world"
  shows
    "calls_between w (snd (upsert_memory st content context importance tags (Some i) user_id w)) =
       [APut (''memories'', user_id) (str_uuid i)
          (memory_value content context importance tags (isoformat (now_values w (now_calls w))))]
     \<and> uuid4_calls (snd (upsert_memory st content context importance tags (Some i) user_id w)) =
         uuid4_calls w
     \<and> fst (upsert_memory st content context importance tags (Some i) user_id w) =
         (case fst (aput st (''memories'', user_id) (str_uuid i)
                      (memory_value content context importance tags
                         (isoformat (now_values w (now_calls w)))) (store_state w)) of
            None \<Rightarrow> Inr (''Stored memory '' @ str_uuid i)
          | Some e \<Rightarrow> Inl e)
     \<and> calls_between w (snd (upsert_memory st content context importance tags None user_id w)) =
         [APut (''memories'', user_id) (str_uuid (uuid4_values w (uuid4_calls w)))
            (memory_value content context importance tags (isoformat (now_values w (now_calls w))))]
     \<and> uuid4_calls (snd (upsert_memory st content context importance tags None user_id w)) =
         Suc (uuid4_calls w)
     \<and> fst (upsert_memory st content context importance tags None user_id w) =
         (case fst (aput st (''memories'', user_id) (str_uuid (uuid4_values w (uuid4_calls w)))
                      (memory_value content context importance tags
                         (isoformat (now_values w (now_calls w)))) (store_state w)) of
            None \<Rightarrow> Inr (''Stored memory '' @ str_uuid (uuid4_values w (uuid4_calls w)))
          | Some e \<Rightarrow> Inl e)
     \<and> (kv_get (store_state kw) (''memories'', user_id) (str_uuid i) \<noteq> None \<longrightarrow>
          fst (upsert_memory kv_store content context importance tags (Some i) user_id kw) =
            Inr (''Stored memory '' @ str_uuid i)
          \<and> map fst (store_state
                 (snd (upsert_memory kv_store content context importance tags (Some i) user_id kw))) =
              map fst (store_state kw)
          \<and> length (records_of user_id (store_state
                 (snd (upsert_memory kv_store content context importance tags (Some i) user_id kw)))) =
              length (records_of user_id (store_state kw))
          \<and> kv_get (store_state
                 (snd (upsert_memory kv_store content context importance tags (Some i) user_id kw)))
               (''memories'', user_id) (str_uuid i) =
              Some (memory_value content context importance tags
                      (isoformat (now_values kw (now_calls kw))))
          \<and> (\<forall>ns k. (ns, k) \<noteq> ((''memories'', user_id), str_uuid i) \<longrightarrow>
                kv_get (store_state
                   (snd (upsert_memory kv_store content context importance tags (Some i) user_id kw)))
                  ns k = kv_get (store_state kw) ns k))
     \<and> (kv_get (store_state kw) (''memories'', user_id) (str_uuid (uuid4_values kw (uuid4_calls kw))) =
           None \<longrightarrow>
          fst (upsert_memory kv_store content context importance tags None user_id kw) =
            Inr (''Stored memory '' @ str_uuid (uuid4_values kw (uuid4_calls kw)))
          \<and> store_state (snd (upsert_memory kv_store content context importance tags None user_id kw)) =
              store_state kw @
              [(((''memories'', user_id), str_uuid (uuid4_values kw (uuid4_calls kw))),
                memory_value content context importance tags
                  (isoformat (now_values kw (now_calls kw))))])
     \<and> (str_uuid i = str_uuid j) = (i = j)"
proof -
  have given:
    "calls_between w (snd (upsert_memory st content context importance tags (Some i) user_id w)) =
       [APut (''memories'', user_id) (str_uuid i)
          (memory_value content context importance tags (isoformat (now_values w (now_calls w))))]
     \<and> uuid4_calls (snd (upsert_memory st content context importance tags (Some i) user_id w)) =
         uuid4_calls w
     \<and> fst (upsert_memory st content context importance tags (Some i) user_id w) =
         (case fst (aput st (''memories'', user_id) (str_uuid i)
                      (memory_value content context importance tags
                         (isoformat (now_values w (now_calls w)))) (store_state w)) of
            None \<Rightarrow> Inr (''Stored memory '' @ str_uuid i)
          | Some e \<Rightarrow> Inl e)"
    by (simp add: upsert_memory_calls) (simp add: upsert_memory_unfold Let_def)
  have generated:
    "calls_between w (snd (upsert_memory st content context importance tags None user_id w)) =
         [APut (''memories'', user_id) (str_uuid (uuid4_values w (uuid4_calls w)))
            (memory_value content context importance tags (isoformat (now_values w (now_calls w))))]
     \<and> uuid4_calls (snd (upsert_memory st content context importance tags None user_id w)) =
         Suc (uuid4_calls w)
     \<and> fst (upsert_memory st content context importance tags None user_id w) =
         (case fst (aput st (''memories'', user_id) (str_uuid (uuid4_values w (uuid4_calls w)))
                      (memory_value content context importance tags
                         (isoformat (now_values w (now_calls w)))) (store_state w)) of
            None \<Rightarrow> Inr (''Stored memory '' @ str_uuid (uuid4_values w (uuid4_calls w)))
          | Some e \<Rightarrow> Inl e)"
    by (simp add: upsert_memory_calls) (simp add: upsert_memory_unfold Let_def)
  have kv: "fst (upsert_memory kv_store content context importance tags (Some i) user_id kw) =
            Inr (''Stored memory '' @ str_uuid i)
          \<and> map fst (store_state
                 (snd (upsert_memory kv_store content context importance tags (Some i) user_id kw))) =
              map fst (store_state kw)
          \<and> length (records_of user_id (store_state
                 (snd (upsert_memory kv_store content context importance tags (Some i) user_id kw)))) =
              length (records_of user_id (store_state kw))
          \<and> kv_get (store_state
                 (snd (upsert_memory kv_store content context importance tags (Some i) user_id kw)))
               (''memories'', user_id) (str_uuid i) =
              Some (memory_value content context importance tags
                      (isoformat (now_values kw (now_calls kw))))
          \<and> (\<forall>ns k. (ns, k) \<noteq> ((''memories'', user_id), str_uuid i) \<longrightarrow>
                kv_get (store_state
                   (snd (upsert_memory kv_store content context importance tags (Some i) user_id kw)))
                  ns k = kv_get (store_state kw) ns k)"
    if present: "kv_get (store_state kw) (''memories'', user_id) (str_uuid i) \<noteq> None"
  proof -
    from present have mem: "((''memories'', user_id), str_uuid i) \<in> set (map fst (store_state kw))"
      by (simp only: kv_get_present)
    have keys: "map fst (store_state
                 (snd (upsert_memory kv_store content context importance tags (Some i) user_id kw))) =
              map fst (store_state kw)"
      using mem by (simp add: upsert_memory_kv_state update_keys)
    show ?thesis
      using keys
      by (simp add: upsert_memory_kv_result records_of_length)
         (simp add: upsert_memory_kv_state kv_get_def update_conv')
  qed
  have create:
    "fst (upsert_memory kv_store content context importance tags None user_id kw) =
            Inr (''Stored memory '' @ str_uuid (uuid4_values kw (uuid4_calls kw)))
          \<and> store_state (snd (upsert_memory kv_store content context importance tags None user_id kw)) =
              store_state kw @
              [(((''memories'', user_id), str_uuid (uuid4_values kw (uuid4_calls kw))),
                memory_value content context importance tags
                  (isoformat (now_values kw (now_calls kw))))]"
    if "kv_get (store_state kw) (''memories'', user_id) (str_uuid (uuid4_values kw (uuid4_calls kw))) =
           None"
  proof -
    from that have "((''memories'', user_id), str_uuid (uuid4_values kw (uuid4_calls kw)))
        \<notin> set (map fst (store_state kw))"
      by (simp add: kv_get_absent)
    then show ?thesis
      by (simp add: upsert_memory_kv_result upsert_memory_kv_state update_absent)
  qed
  from given generated kv create str_uuid_inj [of i j] show ?thesis
    by blast
qed


theorem upsert_memory_effective_identifier_witness:
  "kv_get (store_state (world_of example_records)) (''memories'', ''u1'') (str_uuid 7) \<noteq> None
   \<and> fst (upsert_memory kv_store ''likes green tea'' ''corrected'' None None (Some 7) ''u1''
            (world_of example_records)) =
       Inr ''Stored memory 00000000-0000-0000-0000-000000000007''
   \<and> length (records_of ''u1'' (store_state
          (snd (upsert_memory kv_store ''likes green tea'' ''corrected'' None None (Some 7) ''u1''
                  (world_of example_records))))) = 1
   \<and> kv_get (store_state
          (snd (upsert_memory kv_store ''likes green tea'' ''corrected'' None None (Some 7) ''u1''
                  (world_of example_records))))
        (''memories'', ''u1'') ''00000000-0000-0000-0000-000000000007'' =
       Some (memory_value ''likes green tea'' ''corrected'' None None ''2024-05-17T09:03:07'')
   \<and> kv_get (store_state (world_of example_records)) (''memories'', ''u1'')
        (str_uuid (uuid4_values (world_of example_records) (uuid4_calls (world_of example_records)))) =
       None
   \<and> fst (upsert_memory kv_store ''likes green tea'' ''corrected'' None None None ''u1''
            (world_of example_records)) =
       Inr ''Stored memory 00000000-0000-0000-0000-0000000000ff''
   \<and> store_state (snd (upsert_memory kv_store ''likes green tea'' ''corrected'' None None None ''u1''
            (world_of example_records))) =
       example_records @
       [(((''memories'', ''u1''), ''00000000-0000-0000-0000-0000000000ff''),
         memory_value ''likes green tea'' ''corrected'' None None ''2024-05-17T09:03:07'')]"
proof -
  have present:
    "kv_get (store_state (world_of example_records)) (''memories'', ''u1'') (str_uuid 7) \<noteq> None"
    by (simp add: kv_get_def world_of_def example_records_def str_uuid_7)
  have count: "length (records_of ''u1'' example_records) = 1"
    by (simp add: records_of_def example_records_def)
  have drawn: "uuid4_values (world_of example_records) (uuid4_calls (world_of example_records)) =
      255"
    by (simp add: world_of_def)
  have clock: "now_values (world_of example_records) (now_calls (world_of example_records)) =
      example_now 0"
    by (simp add: world_of_def)
  have held: "store_state (world_of example_records) = example_records"
    by (simp add: world_of_def)
  have put: "fst (kv_put ns k v s) = None" for ns k v s
    by (simp add: kv_put_def)
  note inst = upsert_memory_effective_identifier
    [of "world_of example_records" kv_store "''likes green tea''" "''corrected''" None None 7
        "''u1''" "world_of example_records"]
  have unused:
    "kv_get (store_state (world_of example_records)) (''memories'', ''u1'')
        (str_uuid (uuid4_values (world_of example_records) (uuid4_calls (world_of example_records)))) =
       None"
    by (simp add: kv_get_def world_of_def example_records_def str_uuid_255)
  from inst present unused show ?thesis
    by (simp add: str_uuid_7 str_uuid_255 isoformat_example_0 count drawn clock held put)
qed

text \<open>
  C2, as the code has it. The value written is the dictionary with exactly the keys
  \<open>content\<close>, \<open>context\<close>, \<open>importance\<close>, \<open>tags\<close>, \<open>timestamp\<close>, in this order;
  content and context are passed through; the \<open>importance\<close> key is always present, and
  holds \<open>None\<close> when no importance is given, which is not the integer zero.
\<close>

theorem upsert_memory_stored_value:
  "calls_between w (snd (upsert_memory st content context importance tags memory_id user_id w)) =
     [APut (''memories'', user_id)
        (str_uuid (case memory_id of Some m \<Rightarrow> m | None \<Rightarrow> uuid4_values w (uuid4_calls w)))
        (PDict
          [(''content'', PStr content),
           (''context'', PStr context),
           (''importance'', (case importance of None \<Rightarrow> PNone | Some n \<Rightarrow> PInt n)),
           (''tags'', PList (map PStr (case tags of None \<Rightarrow> [] | Some ts \<Rightarrow> ts))),
           (''timestamp'', PStr (isoformat (now_values w (now_calls w))))])]
   \<and> (\<exists>k v. calls_between w (snd (upsert_memory st content context None tags memory_id user_id w)) =
               [APut (''memories'', user_id) k v]
            \<and> dict_keys v = [''content'', ''context'', ''importance'', ''tags'', ''timestamp'']
            \<and> dict_get v ''importance'' = Some PNone
            \<and> dict_get v ''importance'' \<noteq> Some (PInt 0))
   \<and> (\<exists>k v. calls_between w (snd (upsert_memory st content context (Some 0) tags memory_id user_id w)) =
               [APut (''memories'', user_id) k v]
            \<and> dict_get v ''importance'' = Some (PInt 0))"
  by (simp add: upsert_memory_calls memory_value_keys memory_value_get)
     (simp add: memory_value_def tags_or_empty_eq)

theorem upsert_memory_stored_value_witness:
  "calls_between (world_of example_records)
     (snd (upsert_memory kv_store ''likes tea'' ''breakfast'' (Some 0) (Some [''drink'']) None ''u1''
             (world_of example_records))) =
     [APut (''memories'', ''u1'') ''00000000-0000-0000-0000-0000000000ff''
        (PDict
          [(''content'', PStr ''likes tea''),
           (''context'', PStr ''breakfast''),
           (''importance'', PInt 0),
           (''tags'', PList [PStr ''drink'']),
           (''timestamp'', PStr ''2024-05-17T09:03:07'')])]"
  using upsert_memory_stored_value
    [of "world_of example_records" kv_store "''likes tea''" "''breakfast''" "Some 0"
        "Some [''drink'']" None "''u1''", THEN conjunct1]
  by (simp add: world_of_def str_uuid_255 isoformat_example_0)

text \<open>
  As the specification words C2, the \<open>importance\<close> field is absent from the stored
  value when no importance is given. For this call the field is there, holding \<open>None\<close>.
\<close>

theorem upsert_memory_importance_absent_counterexample:
  "calls_between (world_of example_records)
     (snd (upsert_memory kv_store ''likes tea'' ''breakfast'' None None (Some 7) ''u1''
             (world_of example_records))) =
     [APut (''memories'', ''u1'') ''00000000-0000-0000-0000-000000000007''
        (PDict
          [(''content'', PStr ''likes tea''),
           (''context'', PStr ''breakfast''),
           (''importance'', PNone),
           (''tags'', PList []),
           (''timestamp'', PStr ''2024-05-17T09:03:07'')])]
   \<and> dict_get
        (PDict
          [(''content'', PStr ''likes tea''),
           (''context'', PStr ''breakfast''),
           (''importance'', PNone),
           (''tags'', PList []),
           (''timestamp'', PStr ''2024-05-17T09:03:07'')]) ''importance'' \<noteq> None"
  by (simp add: upsert_memory_calls memory_value_def tags_or_empty_def world_of_def str_uuid_7
        isoformat_example_0)

text \<open>
  C3. The \<open>tags\<close> field of the value written is always a list: the given tags in
  their order, and the empty list when no tags are given.
\<close>

theorem upsert_memory_tags_sequence:
  "(\<exists>k v. calls_between w (snd (upsert_memory st content context importance tags memory_id user_id w)) =
            [APut (''memories'', user_id) k v]
        \<and> dict_get v ''tags'' = Some (PList (map PStr (case tags of None \<Rightarrow> [] | Some ts \<Rightarrow> ts))))
   \<and> (\<exists>k v. calls_between w (snd (upsert_memory st content context importance None memory_id user_id w)) =
            [APut (''memories'', user_id) k v]
        \<and> dict_get v ''tags'' = Some (PList []))
   \<and> (\<exists>k v. calls_between w
              (snd (upsert_memory st content context importance (Some [''a'', ''b'']) memory_id user_id w)) =
            [APut (''memories'', user_id) k v]
        \<and> dict_get v ''tags'' = Some (PList [PStr ''a'', PStr ''b'']))"
  by (simp add: upsert_memory_calls memory_value_get tags_or_empty_eq)

theorem upsert_memory_tags_sequence_witness:
  "\<exists>k v. calls_between (world_of example_records)
            (snd (upsert_memory kv_store ''likes tea'' ''breakfast'' None (Some [''a'', ''b''])
                    (Some 7) ''u1'' (world_of example_records))) =
            [APut (''memories'', ''u1'') k v]
        \<and> dict_get v ''tags'' = Some (PList [PStr ''a'', PStr ''b''])"
  using upsert_memory_tags_sequence
    [of "world_of example_records" kv_store "''likes tea''" "''breakfast''" None
        "Some [''a'', ''b'']" "Some 7" "''u1''"]
  by simp

text \<open>
  C10. An empty list of tags and no tags at all give the same call: the same result
  and the same world afterwards, hence the same write.
\<close>

theorem upsert_memory_empty_tags_as_none:
  "upsert_memory st content context importance (Some []) memory_id user_id w =
   upsert_memory st content context importance None memory_id user_id w"
  by (simp add: upsert_memory_def memory_value_def tags_or_empty_def)

theorem upsert_memory_empty_tags_as_none_witness:
  "upsert_memory kv_store ''likes tea'' ''breakfast'' (Some 2) (Some []) None ''u1'' (world_of example_records) =
   upsert_memory kv_store ''likes tea'' ''breakfast'' (Some 2) None None ''u1'' (world_of example_records)"
  using upsert_memory_empty_tags_as_none
    [of kv_store "''likes tea''" "''breakfast''" "Some 2" None "''u1''" "world_of example_records"]
  by simp

subsection \<open>The request and the summary of a search\<close>

text \<open>
  C4. A search with no query and a search with the empty query are the same call: one
  \<open>asearch\<close> request under \<open>("memories", user_id)\<close> with the empty string and the given
  limit, the same result, the same world afterwards.
\<close>

theorem search_memories_none_as_empty:
  "search_memories st None limit user_id w = search_memories st (Some []) limit user_id w
   \<and> calls_between w (snd (search_memories st None limit user_id w)) =
       [ASearch (''memories'', user_id) [] limit]
   \<and> calls_between w (snd (search_memories st (Some []) limit user_id w)) =
       [ASearch (''memories'', user_id) [] limit]"
  by (simp add: search_memories_calls) (simp add: search_memories_def query_or_empty_def)

theorem search_memories_none_as_empty_witness:
  "search_memories kv_store None 10 ''u1'' (world_of example_records) =
     search_memories kv_store (Some []) 10 ''u1'' (world_of example_records)
   \<and> calls_between (world_of example_records)
        (snd (search_memories kv_store None 10 ''u1'' (world_of example_records))) =
       [ASearch (''memories'', ''u1'') [] 10]"
  using search_memories_none_as_empty [of kv_store 10 "''u1''" "world_of example_records"]
  by simp

text \<open>
  C5. When the store's search returns no result, the handler returns the text
  \<open>No memories found\<close>, and not the empty string.
\<close>

theorem search_memories_no_results:
  "fst (asearch st (''memories'', user_id) (query_or_empty query) limit (store_state w)) = Inr []
   \<Longrightarrow> fst (search_memories st query limit user_id w) = Inr ''No memories found''
     \<and> fst (search_memories st query limit user_id w) \<noteq> Inr []"
  by (simp add: search_memories_unfold Let_def)

theorem search_memories_no_results_witness:
  "fst (asearch (fixed_store []) (''memories'', ''u1'') (query_or_empty (Some ''tea'')) 10
          (store_state (world_of ()))) = Inr []
   \<and> fst (search_memories (fixed_store []) (Some ''tea'') 10 ''u1'' (world_of ())) =
       Inr ''No memories found''"
proof -
  have h: "fst (asearch (fixed_store []) (''memories'', ''u1'') (query_or_empty (Some ''tea'')) 10
          (store_state (world_of ()))) = Inr []"
    by (simp add: fixed_store_def)
  from search_memories_no_results [OF h] h show ?thesis by simp
qed








subsection \<open>Failures of the store\<close>

text \<open>
  C7. When the store's \<open>aput\<close> raises, \<open>upsert_memory\<close> ends with that same exception
  and returns no confirmation; when \<open>asearch\<close> raises, \<open>search_memories\<close> ends with that
  same exception and returns no summary. In both cases the handler has made exactly
  one call to the store (no retry), and the store is in the state in which the failed
  call left it: the handler does nothing after the failure.
\<close>

theorem store_failure_propagates:
  "(fst (aput st (''memories'', user_id)
           (str_uuid (case memory_id of Some m \<Rightarrow> m | None \<Rightarrow> uuid4_values w (uuid4_calls w)))
           (memory_value content context importance tags (isoformat (now_values w (now_calls w))))
           (store_state w)) = Some e \<longrightarrow>
      fst (upsert_memory st content context importance tags memory_id user_id w) = Inl e
      \<and> calls_between w (snd (upsert_memory st content context importance tags memory_id user_id w)) =
          [APut (''memories'', user_id)
             (str_uuid (case memory_id of Some m \<Rightarrow> m | None \<Rightarrow> uuid4_values w (uuid4_calls w)))
             (memory_value content context importance tags (isoformat (now_values w (now_calls w))))]
      \<and> store_state (snd (upsert_memory st content context importance tags memory_id user_id w)) =
          snd (aput st (''memories'', user_id)
                 (str_uuid (case memory_id of Some m \<Rightarrow> m | None \<Rightarrow> uuid4_values w (uuid4_calls w)))
                 (memory_value content context importance tags (isoformat (now_values w (now_calls w))))
                 (store_state w)))
   \<and> (fst (asearch st (''memories'', user_id) (query_or_empty query) limit (store_state w)) = Inl e' \<longrightarrow>
      fst (search_memories st query limit user_id w) = Inl e'
      \<and> calls_between w (snd (search_memories st query limit user_id w)) =
          [ASearch (''memories'', user_id) (query_or_empty query) limit]
      \<and> store_state (snd (search_memories st query limit user_id w)) =
          snd (asearch st (''memories'', user_id) (query_or_empty query) limit (store_state w)))"
  by (simp add: upsert_memory_calls search_memories_calls)
     (simp add: upsert_memory_unfold search_memories_unfold Let_def)

theorem store_failure_propagates_witness:
  "fst (aput failing_store (''memories'', ''u1'') (str_uuid 7)
          (memory_value ''likes tea'' ''breakfast'' None None (isoformat (example_now 0)))
          (store_state (world_of ()))) =
     Some (PyException ''ConnectionError'' ''store unreachable'')
   \<and> fst (upsert_memory failing_store ''likes tea'' ''breakfast'' None None (Some 7) ''u1'' (world_of ())) =
       Inl (PyException ''ConnectionError'' ''store unreachable'')
   \<and> fst (asearch failing_store (''memories'', ''u1'') (query_or_empty None) 10
            (store_state (world_of ()))) =
       Inl (PyException ''ConnectionError'' ''store unreachable'')
   \<and> fst (search_memories failing_store None 10 ''u1'' (world_of ())) =
       Inl (PyException ''ConnectionError'' ''store unreachable'')"
proof -
  have put: "fst (aput failing_store (''memories'', ''u1'')
          (str_uuid (case Some 7 of Some m \<Rightarrow> m
                     | None \<Rightarrow> uuid4_values (world_of ()) (uuid4_calls (world_of ()))))
          (memory_value ''likes tea'' ''breakfast'' None None
             (isoformat (now_values (world_of ()) (now_calls (world_of ())))))
          (store_state (world_of ()))) =
     Some (PyException ''ConnectionError'' ''store unreachable'')"
    by (simp add: failing_store_def)
  have search: "fst (asearch failing_store (''memories'', ''u1'') (query_or_empty None) 10
            (store_state (world_of ()))) =
       Inl (PyException ''ConnectionError'' ''store unreachable'')"
    by (simp add: failing_store_def)
  note both = store_failure_propagates
    [of failing_store "''u1''" "world_of ()" "Some 7" "''likes tea''" "''breakfast''" None None
        "PyException ''ConnectionError'' ''store unreachable''" None 10
        "PyException ''ConnectionError'' ''store unreachable''"]
  from both put search show ?thesis
    by (simp add: failing_store_def)
qed

subsection \<open>One namespace per user\<close>

lemma filter_update_other:
  "ns' \<noteq> ns \<Longrightarrow>
   filter (\<lambda>e. fst (fst e) = ns') (AList.update (ns, k) v s) = filter (\<lambda>e. fst (fst e) = ns') s"
  by (induction s) auto

lemma records_of_update_other:
  "u' \<noteq> u \<Longrightarrow> records_of u' (AList.update ((''memories'', u), k) v s) = records_of u' s"
  by (simp add: records_of_def filter_update_other)

lemma kv_search_records:
  "fst (kv_search (''memories'', u) q l s) =
     Inr (map (\<lambda>kv. \<lparr>item_key = fst kv, item_value = Some (snd kv), item_score = Some PNone\<rparr>)
            (take (nat l) (records_of u s)))"
  by (simp add: kv_search_def records_of_def take_map kv_item_def comp_def)

lemma search_memories_kv_result:
  "fst (search_memories kv_store q l u w) =
     (case fst (kv_search (''memories'', u) (query_or_empty q) l (store_state w)) of
        Inl e \<Rightarrow> Inl e
      | Inr results \<Rightarrow>
          Inr (if results \<noteq> [] then join [CHR 0x0A] (map format_result results)
               else ''No memories found''))"
  by (simp add: search_memories_unfold Let_def)

lemma search_memories_kv_state:
  "store_state (snd (search_memories kv_store q l u w)) = store_state w"
  by (simp add: search_memories_unfold Let_def kv_search_def)

text \<open>
  C8. For two different users \<open>u1\<close> and \<open>u2\<close>: every store call that a handler makes
  for \<open>u1\<close> names the namespace \<open>("memories", u1)\<close>, which is not that of \<open>u2\<close>. On
  the key-value store, an upsert for \<open>u1\<close> leaves every record of \<open>u2\<close> as it was, a
  search writes nothing, the result of a search for \<open>u1\<close> is determined by the records
  of \<open>u1\<close> alone, and an upsert for \<open>u2\<close> does not change what a search for \<open>u1\<close>
  returns.
\<close>

theorem user_namespaces_isolated:
  fixes w :: "'s world" and kw kw' :: "kv_state world"
  assumes "u1 \<noteq> u2"
  shows
    "(\<forall>c \<in> set (calls_between w
                   (snd (upsert_memory st content context importance tags memory_id u1 w))).
        call_namespace c = (''memories'', u1) \<and> call_namespace c \<noteq> (''memories'', u2))
     \<and> (\<forall>c \<in> set (calls_between w (snd (search_memories st query limit u1 w))).
        call_namespace c = (''memories'', u1) \<and> call_namespace c \<noteq> (''memories'', u2))
     \<and> (\<forall>k. kv_get (store_state
                  (snd (upsert_memory kv_store content context importance tags memory_id u1 kw)))
                (''memories'', u2) k = kv_get (store_state kw) (''memories'', u2) k)
     \<and> records_of u2 (store_state
          (snd (upsert_memory kv_store content context importance tags memory_id u1 kw))) =
         records_of u2 (store_state kw)
     \<and> store_state (snd (search_memories kv_store query limit u1 kw)) = store_state kw
     \<and> (records_of u1 (store_state kw') = records_of u1 (store_state kw) \<longrightarrow>
          fst (search_memories kv_store query limit u1 kw') =
          fst (search_memories kv_store query limit u1 kw))
     \<and> fst (search_memories kv_store query limit u1
              (snd (upsert_memory kv_store content context importance tags memory_id u2 kw))) =
         fst (search_memories kv_store query limit u1 kw)"
proof -
  from assms have ns: "(''memories'', u1) \<noteq> (''memories'', u2)"
    by simp
  have puts: "\<forall>c \<in> set (calls_between w
                   (snd (upsert_memory st content context importance tags memory_id u1 w))).
        call_namespace c = (''memories'', u1) \<and> call_namespace c \<noteq> (''memories'', u2)"
    using assms by (simp add: upsert_memory_calls)
  have searches: "\<forall>c \<in> set (calls_between w (snd (search_memories st query limit u1 w))).
        call_namespace c = (''memories'', u1) \<and> call_namespace c \<noteq> (''memories'', u2)"
    using assms by (simp add: search_memories_calls)
  have untouched: "kv_get (store_state
                  (snd (upsert_memory kv_store content context importance tags memory_id u1 kw)))
                (''memories'', u2) k = kv_get (store_state kw) (''memories'', u2) k" for k
    using assms by (simp add: upsert_memory_kv_state kv_get_def update_conv')
  have others: "records_of u2 (store_state
          (snd (upsert_memory kv_store content context importance tags memory_id u1 kw))) =
         records_of u2 (store_state kw)"
    using assms by (simp add: upsert_memory_kv_state records_of_update_other)
  have reads: "fst (search_memories kv_store query limit u1 kw') =
          fst (search_memories kv_store query limit u1 kw)"
    if "records_of u1 (store_state kw') = records_of u1 (store_state kw)"
    using that by (simp add: search_memories_kv_result kv_search_records)
  have "records_of u1 (store_state
          (snd (upsert_memory kv_store content context importance tags memory_id u2 kw))) =
         records_of u1 (store_state kw)"
    using assms by (simp add: upsert_memory_kv_state records_of_update_other)
  then have unseen: "fst (search_memories kv_store query limit u1
              (snd (upsert_memory kv_store content context importance tags memory_id u2 kw))) =
         fst (search_memories kv_store query limit u1 kw)"
    by (simp add: search_memories_kv_result kv_search_records)
  from puts searches untouched others search_memories_kv_state reads unseen show ?thesis
    by blast
qed


theorem user_namespaces_isolated_witness:
  "''u1'' \<noteq> ''u2''
   \<and> records_of ''u2'' (store_state
        (snd (upsert_memory kv_store ''likes green tea'' ''corrected'' None None (Some 7) ''u1''
                (world_of example_records)))) =
       [(''00000000-0000-0000-0000-000000000007'',
         memory_value ''likes coffee'' [] None None ''2024-01-02T00:00:00'')]
   \<and> fst (search_memories kv_store None 10 ''u1''
           (snd (upsert_memory kv_store ''likes juice'' ''lunch'' None None None ''u2''
                   (world_of example_records)))) =
       fst (search_memories kv_store None 10 ''u1'' (world_of example_records))"
proof -
  have different: "''u1'' \<noteq> ''u2''"
    by simp
  have held: "records_of ''u2'' (store_state (world_of example_records)) =
       [(''00000000-0000-0000-0000-000000000007'',
         memory_value ''likes coffee'' [] None None ''2024-01-02T00:00:00'')]"
    by (simp add: records_of_def world_of_def example_records_def)
  note upsert_inst = user_namespaces_isolated
    [OF different, of "world_of example_records" kv_store "''likes green tea''" "''corrected''"
       None None "Some 7" None 10 "world_of example_records"]
  note search_inst = user_namespaces_isolated
    [OF different, of "world_of example_records" kv_store "''likes juice''" "''lunch''"
       None None None None 10 "world_of example_records"]
  from upsert_inst have "records_of ''u2'' (store_state
        (snd (upsert_memory kv_store ''likes green tea'' ''corrected'' None None (Some 7) ''u1''
                (world_of example_records)))) = records_of ''u2'' (store_state (world_of example_records))"
    by blast
  moreover from search_inst have "fst (search_memories kv_store None 10 ''u1''
           (snd (upsert_memory kv_store ''likes juice'' ''lunch'' None None None ''u2''
                   (world_of example_records)))) =
       fst (search_memories kv_store None 10 ''u1'' (world_of example_records))"
    by blast
  ultimately show ?thesis
    using different held by simp
qed

subsection \<open>Time stamps\<close>

text \<open>
  Padded decimal fields have a fixed width and grow with the number they print, so the
  ISO text of a later datetime is the greater string.
\<close>

lemma nats_lt_irrefl: "\<not> nats_lt xs xs"
  by (induction xs) simp_all

lemma nats_lt_append:
  "length a = length b \<Longrightarrow> nats_lt (a @ x) (b @ y) = (nats_lt a b \<or> (a = b \<and> nats_lt x y))"
  by (induction a b rule: list_induct2) auto

lemma str_lt_irrefl: "\<not> str_lt s s"
  by (simp add: str_lt_def nats_lt_irrefl)

lemma str_lt_Nil: "str_lt [] (c # s)"
  by (simp add: str_lt_def)

lemma str_lt_Cons_same: "str_lt (c # s) (c # t) = str_lt s t"
  by (simp add: str_lt_def)

lemma str_lt_append:
  "length a = length b \<Longrightarrow> str_lt (a @ x) (b @ y) = (str_lt a b \<or> (a = b \<and> str_lt x y))"
  by (auto simp add: str_lt_def nats_lt_append inj_map_eq_map [OF inj_of_char])

lemma of_char_dec_digit: "d < 10 \<Longrightarrow> of_char (dec_digit d) = 48 + d"
  by (simp add: dec_digit_def)

lemma dec_nat_small: "n < 10 \<Longrightarrow> dec_nat n = [dec_digit n]"
  by (simp add: dec_nat.simps)

lemma dec_nat_large: "10 \<le> n \<Longrightarrow> dec_nat n = dec_nat (n div 10) @ [dec_digit (n mod 10)]"
  by (subst dec_nat.simps) simp

lemma dec_nat_nonempty: "dec_nat n \<noteq> []"
  by (subst dec_nat.simps) simp

lemma zero_pad_one: "n < 10 \<Longrightarrow> zero_pad (Suc 0) n = [dec_digit n]"
  by (simp add: zero_pad_def dec_nat_small)

lemma zero_pad_Suc:
  "0 < k \<Longrightarrow> zero_pad (Suc k) n = zero_pad k (n div 10) @ [dec_digit (n mod 10)]"
proof (cases "n < 10")
  case True
  assume "0 < k"
  then obtain j where k: "k = Suc j"
    by (cases k) auto
  have zero: "dec_digit 0 = CHR ''0''"
    by (simp add: dec_digit_def char_of_eq_iff)
  from True show ?thesis
    by (simp add: zero_pad_def dec_nat_small k zero replicate_append_same)
next
  case False
  assume "0 < k"
  from False show ?thesis
    by (simp add: zero_pad_def dec_nat_large Let_def Suc_diff_le)
qed

lemma zero_pad_length: "0 < k \<Longrightarrow> n < 10 ^ k \<Longrightarrow> length (zero_pad k n) = k"
proof (induction k arbitrary: n)
  case 0
  then show ?case by simp
next
  case (Suc k)
  show ?case
  proof (cases "k = 0")
    case True
    with Suc.prems show ?thesis by (simp add: zero_pad_one)
  next
    case False
    with Suc.prems have "n div 10 < 10 ^ k"
      by (simp add: less_mult_imp_div_less mult.commute)
    with Suc.IH False have "length (zero_pad k (n div 10)) = k"
      by simp
    with False show ?thesis
      by (simp add: zero_pad_Suc)
  qed
qed

lemma zero_pad_mono:
  "0 < k \<Longrightarrow> n < m \<Longrightarrow> m < 10 ^ k \<Longrightarrow> str_lt (zero_pad k n) (zero_pad k m)"
proof (induction k arbitrary: n m)
  case 0
  then show ?case by simp
next
  case (Suc k)
  show ?case
  proof (cases "k = 0")
    case True
    with Suc.prems show ?thesis
      by (simp add: zero_pad_one str_lt_def of_char_dec_digit)
  next
    case False
    from Suc.prems have m: "m div 10 < 10 ^ k"
      by (simp add: less_mult_imp_div_less mult.commute)
    from Suc.prems have le: "n div 10 \<le> m div 10"
      by (simp add: div_le_mono)
    then have n: "n div 10 < 10 ^ k"
      using m by simp
    have len: "length (zero_pad k (n div 10)) = length (zero_pad k (m div 10))"
      using False n m by (simp add: zero_pad_length)
    show ?thesis
    proof (cases "n div 10 < m div 10")
      case True
      with Suc.IH False m have "str_lt (zero_pad k (n div 10)) (zero_pad k (m div 10))"
        by simp
      with False len show ?thesis
        by (simp add: zero_pad_Suc str_lt_append)
    next
      case same: False
      with le have eq: "n div 10 = m div 10"
        by simp
      with Suc.prems have "n mod 10 < m mod 10"
        by (metis div_mult_mod_eq nat_add_left_cancel_less)
      then have "str_lt [dec_digit (n mod 10)] [dec_digit (m mod 10)]"
        by (simp add: str_lt_def of_char_dec_digit)
      with False len eq show ?thesis
        by (simp add: zero_pad_Suc str_lt_append)
    qed
  qed
qed

lemma str_lt_field:
  assumes "0 < k" and "n < 10 ^ k" and "m < 10 ^ k"
      and "n < m \<or> (n = m \<and> str_lt x y)"
  shows "str_lt (zero_pad k n @ x) (zero_pad k m @ y)"
proof -
  from assms(1-3) have "length (zero_pad k n) = length (zero_pad k m)"
    by (simp add: zero_pad_length)
  then have "str_lt (zero_pad k n @ x) (zero_pad k m @ y) =
      (str_lt (zero_pad k n) (zero_pad k m) \<or> (zero_pad k n = zero_pad k m \<and> str_lt x y))"
    by (rule str_lt_append)
  with assms show ?thesis
    by (auto simp add: zero_pad_mono)
qed


lemma isoformat_mono:
  assumes a: "valid_datetime a" and b: "valid_datetime b" and lt: "datetime_lt a b"
  shows "str_lt (isoformat a) (isoformat b)"
proof -
  let ?us = "\<lambda>d. if microsecond d \<noteq> 0 then CHR ''.'' # zero_pad 6 (microsecond d) else []"
  let ?s = "\<lambda>d. zero_pad 2 (second d) @ ?us d"
  let ?mi = "\<lambda>d. zero_pad 2 (minute d) @ CHR '':'' # ?s d"
  let ?h = "\<lambda>d. zero_pad 2 (hour d) @ CHR '':'' # ?mi d"
  let ?d = "\<lambda>d. zero_pad 2 (day d) @ CHR ''T'' # ?h d"
  let ?mo = "\<lambda>d. zero_pad 2 (month d) @ CHR ''-'' # ?d d"
  let ?y = "\<lambda>d. zero_pad 4 (year d) @ CHR ''-'' # ?mo d"
  have iso: "isoformat d = ?y d" for d
    by (simp add: isoformat_def)
  have us: "str_lt (?us a) (?us b)" if "microsecond a < microsecond b"
  proof (cases "microsecond a = 0")
    case True
    with that show ?thesis
      by (simp add: str_lt_Nil)
  next
    case False
    from b have "microsecond b < 10 ^ 6"
      by (simp add: valid_datetime_def)
    with that have "str_lt (zero_pad 6 (microsecond a)) (zero_pad 6 (microsecond b))"
      by (intro zero_pad_mono) simp_all
    with False that show ?thesis
      by (simp add: str_lt_Cons_same)
  qed
  have s: "str_lt (?s a) (?s b)"
    if "nats_lt [second a, microsecond a] [second b, microsecond b]"
    using that a b us by (intro str_lt_field) (auto simp add: valid_datetime_def)
  have mi: "str_lt (?mi a) (?mi b)"
    if "nats_lt [minute a, second a, microsecond a] [minute b, second b, microsecond b]"
    using that a b s
    by (intro str_lt_field) (auto simp add: valid_datetime_def str_lt_Cons_same)
  have h: "str_lt (?h a) (?h b)"
    if "nats_lt [hour a, minute a, second a, microsecond a]
          [hour b, minute b, second b, microsecond b]"
    using that a b mi
    by (intro str_lt_field) (auto simp add: valid_datetime_def str_lt_Cons_same)
  have d: "str_lt (?d a) (?d b)"
    if "nats_lt [day a, hour a, minute a, second a, microsecond a]
          [day b, hour b, minute b, second b, microsecond b]"
    using that a b h
    by (intro str_lt_field) (auto simp add: valid_datetime_def str_lt_Cons_same)
  have mo: "str_lt (?mo a) (?mo b)"
    if "nats_lt [month a, day a, hour a, minute a, second a, microsecond a]
          [month b, day b, hour b, minute b, second b, microsecond b]"
    using that a b d
    by (intro str_lt_field) (auto simp add: valid_datetime_def str_lt_Cons_same)
  have y: "str_lt (?y a) (?y b)"
    if "nats_lt [year a, month a, day a, hour a, minute a, second a, microsecond a]
          [year b, month b, day b, hour b, minute b, second b, microsecond b]"
    using that a b mo
    by (intro str_lt_field) (auto simp add: valid_datetime_def str_lt_Cons_same)
  from lt have "nats_lt [year a, month a, day a, hour a, minute a, second a, microsecond a]
          [year b, month b, day b, hour b, minute b, second b, microsecond b]"
    by (simp only: datetime_lt_def datetime_fields_def)
  then have "str_lt (?y a) (?y b)"
    by (rule y)
  then show ?thesis
    by (simp only: iso)
qed

lemma example_now_valid: "n < 1000000 \<Longrightarrow> valid_datetime (example_now n)"
  by (simp add: valid_datetime_def example_now_def)

lemma example_now_lt: "datetime_lt (example_now n) (example_now (Suc n))"
  by (simp add: datetime_lt_def datetime_fields_def example_now_def)


lemma upsert_memory_clock:
  "now_calls (snd (upsert_memory st content context importance tags memory_id user_id w)) =
     Suc (now_calls w)"
  "now_values (snd (upsert_memory st content context importance tags memory_id user_id w)) =
     now_values w"
  by (simp_all add: upsert_memory_unfold Let_def)

lemma kv_get_after_upsert:
  "kv_get (store_state (snd (upsert_memory kv_store content context importance tags (Some i) user_id w)))
     (''memories'', user_id) (str_uuid i) =
   Some (memory_value content context importance tags (isoformat (now_values w (now_calls w))))"
  by (simp add: upsert_memory_kv_state kv_get_def update_conv')

text \<open>
  C9. Every call reads the clock exactly once and writes, as \<open>timestamp\<close>, the ISO text
  of that reading; no argument of the call enters it. On the key-value store, after two
  upserts in a row of the same \<open>memory_id\<close> the record holds the time stamp of the second
  write, the first write having stored that of the first; when the second reading of
  the clock is later than the first, the two time stamps differ and the first is not
  greater than the second, as strings.
\<close>

theorem upsert_memory_timestamp:
  fixes w :: "'s world" and kw :: "kv_state world"
  shows
    "calls_between w (snd (upsert_memory st content context importance tags memory_id user_id w)) =
       [APut (''memories'', user_id)
          (str_uuid (case memory_id of Some m \<Rightarrow> m | None \<Rightarrow> uuid4_values w (uuid4_calls w)))
          (memory_value content context importance tags (isoformat (now_values w (now_calls w))))]
     \<and> dict_get (memory_value content context importance tags (isoformat (now_values w (now_calls w))))
          ''timestamp'' = Some (PStr (isoformat (now_values w (now_calls w))))
     \<and> now_calls (snd (upsert_memory st content context importance tags memory_id user_id w)) =
         Suc (now_calls w)
     \<and> (valid_datetime (now_values kw (now_calls kw))
          \<and> valid_datetime (now_values kw (Suc (now_calls kw)))
          \<and> datetime_lt (now_values kw (now_calls kw)) (now_values kw (Suc (now_calls kw))) \<longrightarrow>
        kv_get (store_state (snd (upsert_memory kv_store content context importance tags (Some i) user_id kw)))
           (''memories'', user_id) (str_uuid i) =
          Some (memory_value content context importance tags (isoformat (now_values kw (now_calls kw))))
        \<and> kv_get (store_state
              (snd (upsert_memory kv_store content' context' importance' tags' (Some i) user_id
                      (snd (upsert_memory kv_store content context importance tags (Some i) user_id kw)))))
             (''memories'', user_id) (str_uuid i) =
            Some (memory_value content' context' importance' tags'
                    (isoformat (now_values kw (Suc (now_calls kw)))))
        \<and> isoformat (now_values kw (now_calls kw)) \<noteq> isoformat (now_values kw (Suc (now_calls kw)))
        \<and> str_le (isoformat (now_values kw (now_calls kw)))
             (isoformat (now_values kw (Suc (now_calls kw)))))"
proof -
  have once:
    "calls_between w (snd (upsert_memory st content context importance tags memory_id user_id w)) =
       [APut (''memories'', user_id)
          (str_uuid (case memory_id of Some m \<Rightarrow> m | None \<Rightarrow> uuid4_values w (uuid4_calls w)))
          (memory_value content context importance tags (isoformat (now_values w (now_calls w))))]
     \<and> dict_get (memory_value content context importance tags (isoformat (now_values w (now_calls w))))
          ''timestamp'' = Some (PStr (isoformat (now_values w (now_calls w))))
     \<and> now_calls (snd (upsert_memory st content context importance tags memory_id user_id w)) =
         Suc (now_calls w)"
    by (simp add: upsert_memory_calls memory_value_get upsert_memory_clock)
  have first: "kv_get (store_state (snd (upsert_memory kv_store content context importance tags (Some i) user_id kw)))
           (''memories'', user_id) (str_uuid i) =
          Some (memory_value content context importance tags (isoformat (now_values kw (now_calls kw))))"
    by (rule kv_get_after_upsert)
  have second: "kv_get (store_state
              (snd (upsert_memory kv_store content' context' importance' tags' (Some i) user_id
                      (snd (upsert_memory kv_store content context importance tags (Some i) user_id kw)))))
             (''memories'', user_id) (str_uuid i) =
            Some (memory_value content' context' importance' tags'
                    (isoformat (now_values kw (Suc (now_calls kw)))))"
    by (simp add: kv_get_after_upsert upsert_memory_clock)
  have order: "isoformat (now_values kw (now_calls kw)) \<noteq> isoformat (now_values kw (Suc (now_calls kw)))
        \<and> str_le (isoformat (now_values kw (now_calls kw)))
             (isoformat (now_values kw (Suc (now_calls kw))))"
    if "valid_datetime (now_values kw (now_calls kw))"
      and "valid_datetime (now_values kw (Suc (now_calls kw)))"
      and "datetime_lt (now_values kw (now_calls kw)) (now_values kw (Suc (now_calls kw)))"
  proof -
    from that have lt: "str_lt (isoformat (now_values kw (now_calls kw)))
        (isoformat (now_values kw (Suc (now_calls kw))))"
      by (rule isoformat_mono)
    then have "isoformat (now_values kw (now_calls kw)) \<noteq> isoformat (now_values kw (Suc (now_calls kw)))"
      using str_lt_irrefl by metis
    with lt show ?thesis
      by (simp add: str_le_def)
  qed
  from once first second order show ?thesis
    by blast
qed

theorem upsert_memory_timestamp_witness:
  "valid_datetime (now_values (world_of example_records) (now_calls (world_of example_records)))
   \<and> valid_datetime (now_values (world_of example_records) (Suc (now_calls (world_of example_records))))
   \<and> datetime_lt (now_values (world_of example_records) (now_calls (world_of example_records)))
        (now_values (world_of example_records) (Suc (now_calls (world_of example_records))))
   \<and> kv_get (store_state
         (snd (upsert_memory kv_store ''likes green tea'' ''corrected'' None None (Some 7) ''u1''
            (snd (upsert_memory kv_store ''likes tea'' ''breakfast'' None None (Some 7) ''u1''
                    (world_of example_records))))))
        (''memories'', ''u1'') ''00000000-0000-0000-0000-000000000007'' =
       Some (memory_value ''likes green tea'' ''corrected'' None None ''2024-05-17T09:03:07.000001'')
   \<and> ''2024-05-17T09:03:07'' \<noteq> ''2024-05-17T09:03:07.000001''
   \<and> str_le ''2024-05-17T09:03:07'' ''2024-05-17T09:03:07.000001''"
proof -
  have clock: "now_values (world_of example_records) = example_now"
      "now_calls (world_of example_records) = 0"
    by (simp_all add: world_of_def)
  have valid: "valid_datetime (example_now 0)" "valid_datetime (example_now (Suc 0))"
    by (simp_all add: example_now_valid)
  note inst = upsert_memory_timestamp
    [of "world_of example_records" kv_store "''likes tea''" "''breakfast''" None None "Some 7"
        "''u1''" "world_of example_records" 7 "''likes green tea''" "''corrected''" None None]
  from inst valid example_now_lt [of 0] show ?thesis
    by (simp add: clock str_uuid_7 isoformat_example_0 isoformat_example_1)
qed

end
